theory Spec2Isabelle
  imports Complex_Main
begin

section \<open>The disk-age module: \<^verbatim>\<open>Age(alpha)\<close> of \<^verbatim>\<open>disk_age.py\<close>\<close>

text \<open>
  The module has one function, \<^verbatim>\<open>Age(alpha=0.0)\<close>. It fits a smoothing cubic spline to an
  embedded histogram with SciPy's \<^verbatim>\<open>splrep\<close>, clamps the input slope to the interval from
  \<open>-2\<close> to \<open>4.8\<close> (printing a warning when it had to), and returns a ratio of two spline
  integrals computed by SciPy's \<^verbatim>\<open>splint\<close>.

  Modelling decisions.
  \<^item> Python floats are modelled as \<^typ>\<open>real\<close>: a float literal stands for its decimal
    value, arithmetic is exact, and NaN and the infinities are not values of the model.
  \<^item> \<^verbatim>\<open>splrep\<close> and \<^verbatim>\<open>splint\<close> belong to SciPy, not to this module. They are parameters of
    the model (\<open>splrep\<close>, \<open>splint\<close>), taken to be pure and total; the type \<open>'tck\<close> is
    whatever \<^verbatim>\<open>splrep\<close> returns.
  \<^item> \<^verbatim>\<open>print\<close> appends to the standard output, which is threaded through as state. A
    printed warning is recorded by its kind and the value formatted into it, not by its
    characters.
  \<^item> An exception is a value: a computation returns \<open>Inl e\<close> together with the output
    printed before the exception was raised.
\<close>

subsection \<open>The embedded calibration histogram\<close>

definition histo_alpha :: "real list" where
  "histo_alpha = [
    -3.028380897, -2.946254679, -2.864128461, -2.782002244, -2.699876026, -2.617749808,
    -2.53562359, -2.453497372, -2.371371154, -2.289244937, -2.207118719, -2.124992501,
    -2.042866283, -1.960740065, -1.878613848, -1.79648763, -1.714361412, -1.632235194,
    -1.550108976, -1.467982758, -1.385856541, -1.303730323, -1.221604105, -1.139477887,
    -1.057351669, -0.975225452, -0.893099234, -0.810973016, -0.728846798, -0.64672058,
    -0.564594362, -0.482468145, -0.400341927, -0.318215709, -0.236089491, -0.153963273,
    -0.071837056, 0.010289162, 0.09241538, 0.174541598, 0.256667816, 0.338794034,
    0.420920251, 0.503046469, 0.585172687, 0.667298905, 0.749425123, 0.831551341,
    0.913677558, 0.995803776, 1.077929994, 1.160056212, 1.24218243, 1.324308647,
    1.406434865, 1.488561083, 1.570687301, 1.652813519, 1.734939737, 1.817065954,
    1.899192172, 1.98131839, 2.063444608, 2.145570826, 2.227697043, 2.309823261,
    2.391949479, 2.474075697, 2.556201915, 2.638328133, 2.72045435, 2.802580568,
    2.884706786, 2.966833004, 3.048959222, 3.131085439, 3.213211657, 3.295337875,
    3.377464093, 3.459590311, 3.541716529, 3.623842746, 3.705968964, 3.788095182,
    3.8702214, 3.952347618, 4.034473836, 4.116600053, 4.198726271, 4.280852489,
    4.362978707, 4.445104925, 4.527231142, 4.60935736, 4.691483578, 4.773609796]"

definition histo_value :: "real list" where
  "histo_value = [
    0.002449976, 0.004899952, 0.015442271, 0.100419626, 0.030194253, 0.06643178,
    0.079866664, 0.08716341, 0.067915637, 0.056719817, 0.082373265, 0.089398067,
    0.053945029, 0.060853461, 0.044014358, 0.06509256, 0.16317058, 0.101891253,
    0.125773205, 0.219043265, 0.432833895, 0.449567946, 0.544663194, 0.886259852,
    0.989236206, 0.862846181, 0.783440641, 0.583325985, 0.538039262, 0.555406536,
    0.344999831, 0.262820176, 0.260577964, 0.19849541, 0.168269814, 0.165631222,
    0.201100745, 0.192358644, 0.186583574, 0.141933609, 0.161162725, 0.08387892,
    0.117124554, 0.126359873, 0.147117747, 0.098773219, 0.137713416, 0.111048893,
    0.125858942, 0.057581656, 0.067554811, 0.078102251, 0.075011976, 0.043499395,
    0.048333773, 0.054341961, 0.036089777, 0.072085757, 0.080411503, 0.019417482,
    0.030378068, 0.025724051, 0.018948669, 0.02000099, 0.000978612, 0.037802944,
    0.003579561, 0.004455848, 0.003073425, 0.019818801, 0.001011327, 0.0, 0.002615764, 0.0,
    0.001073755, 0.0, 0.0, 0.0, 0.0, 0.0, 0.0, 0.0, 0.0, 0.0, 0.0, 0.0, 0.0, 0.0, 0.0, 0.0,
    0.0, 0.0, 0.0, 0.0, 0.0, 0.0]"

definition alpha_max :: real where
  "alpha_max = 4.814672904812319"

subsection \<open>Python values, exceptions and the standard output\<close>

text \<open>
  The values \<^verbatim>\<open>Age\<close> can meet. \<open>PFloatSub\<close> is an instance of a subclass of \<^verbatim>\<open>float\<close> that
  inherits float's comparisons (such as \<^verbatim>\<open>numpy.float64\<close>); \<open>PList\<close> stands for any iterable,
  given by the items it yields; \<open>PNone\<close> for a value that is neither a number nor iterable.
\<close>

datatype pyval =
    PInt int
  | PFloat real
  | PBool bool
  | PFloatSub real
  | PNone
  | PList "pyval list"

datatype pytype = TInt | TFloat | TBool | TFloatSub | TNone | TList

text \<open>\<^verbatim>\<open>type(x)\<close>: the exact class of the value.\<close>

fun type_of :: "pyval \<Rightarrow> pytype" where
  "type_of (PInt n) = TInt"
| "type_of (PFloat x) = TFloat"
| "type_of (PBool b) = TBool"
| "type_of (PFloatSub x) = TFloatSub"
| "type_of PNone = TNone"
| "type_of (PList xs) = TList"

datatype error = TypeError | ZeroDivisionError

text \<open>
  The two warnings of the source, each with the value its f-string formats: the input as it
  was given, before clamping.
\<close>

datatype warning = TooSmall pyval | TooLarge pyval

type_synonym stdout = "warning list"

type_synonym 'a py = "stdout \<Rightarrow> (error + 'a) \<times> stdout"

definition ret :: "'a \<Rightarrow> 'a py" where
  "ret x out = (Inr x, out)"

definition raise :: "error \<Rightarrow> 'a py" where
  "raise e out = (Inl e, out)"

definition py_bind :: "'a py \<Rightarrow> ('a \<Rightarrow> 'b py) \<Rightarrow> 'b py" where
  "py_bind m f out =
     (case m out of
        (Inl e, out') \<Rightarrow> (Inl e, out')
      | (Inr x, out') \<Rightarrow> f x out')"

definition print :: "warning \<Rightarrow> unit py" where
  "print w out = (Inr (), out @ [w])"

text \<open>The number a value compares as; \<^verbatim>\<open>bool\<close> is a subclass of \<^verbatim>\<open>int\<close>.\<close>

fun num_of :: "pyval \<Rightarrow> real option" where
  "num_of (PInt n) = Some (of_int n)"
| "num_of (PFloat x) = Some x"
| "num_of (PBool b) = Some (if b then 1 else 0)"
| "num_of (PFloatSub x) = Some x"
| "num_of PNone = None"
| "num_of (PList xs) = None"

text \<open>
  \<^verbatim>\<open>a < b\<close> and \<^verbatim>\<open>a > b\<close> where one side is a number: an operand that is not a number raises
  \<^verbatim>\<open>TypeError\<close>.
\<close>

definition py_lt :: "pyval \<Rightarrow> pyval \<Rightarrow> bool py" where
  "py_lt a b =
     (case (num_of a, num_of b) of
        (Some x, Some y) \<Rightarrow> ret (x < y)
      | _ \<Rightarrow> raise TypeError)"

definition py_gt :: "pyval \<Rightarrow> pyval \<Rightarrow> bool py" where
  "py_gt a b =
     (case (num_of a, num_of b) of
        (Some x, Some y) \<Rightarrow> ret (x > y)
      | _ \<Rightarrow> raise TypeError)"

text \<open>
  The builtins \<^verbatim>\<open>max(a, b)\<close> and \<^verbatim>\<open>min(a, b)\<close>: the first argument is kept unless the second
  is strictly greater (smaller). The result is one of the two objects, with its own type.
\<close>

definition py_max :: "pyval \<Rightarrow> pyval \<Rightarrow> pyval py" where
  "py_max a b = py_bind (py_gt b a) (\<lambda>g. ret (if g then b else a))"

definition py_min :: "pyval \<Rightarrow> pyval \<Rightarrow> pyval py" where
  "py_min a b = py_bind (py_lt b a) (\<lambda>l. ret (if l then b else a))"

text \<open>The conversion of a numeric argument to a C double at the call of \<^verbatim>\<open>splint\<close>.\<close>

definition py_float :: "pyval \<Rightarrow> real py" where
  "py_float a = (case num_of a of Some x \<Rightarrow> ret x | None \<Rightarrow> raise TypeError)"

text \<open>
  \<^verbatim>\<open>x / y\<close> on floats (\<^verbatim>\<open>splint\<close> returns a Python float): a zero divisor raises
  \<^verbatim>\<open>ZeroDivisionError\<close>.
\<close>

definition py_div :: "real \<Rightarrow> real \<Rightarrow> real py" where
  "py_div x y = (if y = 0 then raise ZeroDivisionError else ret (x / y))"

text \<open>\<^verbatim>\<open>for i in alpha\<close>: the items of an iterable; anything else raises \<^verbatim>\<open>TypeError\<close>.\<close>

fun py_iter :: "pyval \<Rightarrow> pyval list py" where
  "py_iter (PList xs) = ret xs"
| "py_iter v = raise TypeError"

subsection \<open>The function \<^verbatim>\<open>Age\<close>\<close>

text \<open>
  The loop of the sequence branch, over the items still to visit, with the list \<^verbatim>\<open>Age\<close>
  built so far:
  \<^verbatim>\<open>
  for i in alpha:
      if i<-2: print(...too small... {i} ...)
      elif i>4.8: print(...too large... {i} ...)
      a=min(max(i,-2),4.8)
      Age.append( splint(alpha_max,a,tck_36)*2/splint(-0.3,-1.6,tck_36) )
  \<close>
\<close>

fun Age_loop :: "(real \<Rightarrow> real \<Rightarrow> 'tck \<Rightarrow> real) \<Rightarrow> 'tck \<Rightarrow> pyval list \<Rightarrow> pyval list
    \<Rightarrow> pyval list py" where
  "Age_loop splint tck_36 [] Age = ret Age"
| "Age_loop splint tck_36 (i # rest) Age =
     py_bind (py_lt i (PInt (- 2))) (\<lambda>small.
     py_bind (if small then print (TooSmall i)
              else py_bind (py_gt i (PFloat 4.8)) (\<lambda>large.
                   if large then print (TooLarge i) else ret ())) (\<lambda>_.
     py_bind (py_max i (PInt (- 2))) (\<lambda>m.
     py_bind (py_min m (PFloat 4.8)) (\<lambda>a.
     py_bind (py_float a) (\<lambda>x.
     py_bind (py_div (splint alpha_max x tck_36 * 2) (splint (- 0.3) (- 1.6) tck_36)) (\<lambda>v.
     Age_loop splint tck_36 rest (Age @ [PFloat v])))))))"

text \<open>
  \<^verbatim>\<open>def Age(alpha=0.0)\<close>. The argument is \<open>None\<close> when the caller passes none, and the
  default is bound. The spline is fitted first, on every call; then the exact type of
  \<^verbatim>\<open>alpha\<close> chooses the scalar branch or the loop.
\<close>

definition Age :: "(real list \<Rightarrow> real list \<Rightarrow> nat \<Rightarrow> real \<Rightarrow> 'tck) \<Rightarrow> (real \<Rightarrow> real \<Rightarrow> 'tck \<Rightarrow> real)
    \<Rightarrow> pyval option \<Rightarrow> pyval py" where
  "Age splrep splint arg =
     (let alpha = (case arg of None \<Rightarrow> PFloat 0.0 | Some v \<Rightarrow> v);
          tck_36 = splrep histo_alpha histo_value 3 0.08
      in if type_of alpha \<in> {TInt, TFloat} then
           py_bind (py_lt alpha (PInt (- 2))) (\<lambda>small.
           py_bind (if small then print (TooSmall alpha)
                    else py_bind (py_gt alpha (PFloat 4.8)) (\<lambda>large.
                         if large then print (TooLarge alpha) else ret ())) (\<lambda>_.
           py_bind (py_max alpha (PInt (- 2))) (\<lambda>m.
           py_bind (py_min m (PFloat 4.8)) (\<lambda>alpha'.
           py_bind (py_float alpha') (\<lambda>x.
           py_bind (py_div (splint alpha_max x tck_36 * 2) (splint (- 0.3) (- 1.6) tck_36)) (\<lambda>v.
           ret (PFloat v)))))))
         else
           py_bind (py_iter alpha) (\<lambda>items.
           py_bind (Age_loop splint tck_36 items []) (\<lambda>Age'.
           ret (PList Age'))))"

section \<open>Properties\<close>

subsection \<open>The calibration constants\<close>

lemma sorted_wrt_less_step:
  "sorted_wrt (<) (x # y # zs) = ((x::real) < y \<and> sorted_wrt (<) (y # zs))"
  by auto

text \<open>
  Claim C4, as stated: \<^verbatim>\<open>histo_alpha\<close> and \<^verbatim>\<open>histo_value\<close> each have exactly 97 elements.
  The lists of the source have 96 elements each, so the count of 97 is refuted.
\<close>

theorem histo_length_97_counterexample:
  "\<not> (length histo_alpha = 97 \<and> length histo_value = 97)"
  by (simp add: histo_alpha_def)

text \<open>
  Claim C4, amended: \<^verbatim>\<open>histo_alpha\<close> and \<^verbatim>\<open>histo_value\<close> each have exactly 96 elements,
  \<^verbatim>\<open>histo_alpha\<close> is strictly increasing, and every element of \<^verbatim>\<open>histo_value\<close> is
  non-negative.
\<close>

theorem histo_shape:
  "length histo_alpha = 96 \<and> length histo_value = 96 \<and>
   sorted_wrt (<) histo_alpha \<and> list_all (\<lambda>v. 0 \<le> v) histo_value"
proof -
  have "length histo_alpha = 96"
    by (simp add: histo_alpha_def)
  moreover have "length histo_value = 96"
    by (simp add: histo_value_def)
  moreover have "sorted_wrt (<) histo_alpha"
    unfolding histo_alpha_def by (simp only: sorted_wrt_less_step sorted_wrt1) simp
  moreover have "list_all (\<lambda>v. 0 \<le> v) histo_value"
    by (simp add: histo_value_def)
  ultimately show ?thesis by simp
qed

text \<open>
  Claim C3, as stated: the literal \<^verbatim>\<open>alpha_max\<close> equals the maximum element of
  \<^verbatim>\<open>histo_alpha\<close>. It does not: the greatest bin centre is \<open>4.773609796\<close>.
\<close>

theorem alpha_max_is_Max_counterexample:
  "alpha_max \<noteq> Max (set histo_alpha)"
  by (simp add: histo_alpha_def alpha_max_def)

text \<open>
  Claim C3, amended: \<^verbatim>\<open>alpha_max\<close> lies strictly above every bin centre. The maximum element
  of \<^verbatim>\<open>histo_alpha\<close> is \<open>4.773609796\<close>, and \<^verbatim>\<open>alpha_max\<close> exceeds it by
  \<open>0.041063108812319\<close>, which is half the distance between the last two bin centres to
  within \<open>10\<^sup>-\<^sup>9\<close>: the upper edge of the last bin.
\<close>

theorem alpha_max_above_Max:
  "Max (set histo_alpha) = 4.773609796 \<and>
   alpha_max = Max (set histo_alpha) + 0.041063108812319 \<and>
   \<bar>alpha_max - (last histo_alpha + (last histo_alpha - last (butlast histo_alpha)) / 2)\<bar>
     < 1 / 10 ^ 9"
proof -
  have m: "Max (set histo_alpha) = 4.773609796"
    by (simp add: histo_alpha_def)
  have l: "last histo_alpha = 4.773609796"
    by (simp add: histo_alpha_def)
  have b: "last (butlast histo_alpha) = 4.691483578"
    by (simp add: histo_alpha_def)
  show ?thesis
    unfolding m l b by (simp add: alpha_max_def)
qed

subsection \<open>Laws of the effect primitives\<close>

lemma bind_ret [simp]: "py_bind (ret x) f = f x"
  by (rule ext) (simp add: py_bind_def ret_def)

lemma bind_raise [simp]: "py_bind (raise e) f = raise e"
  by (rule ext) (simp add: py_bind_def raise_def)

lemma bind_print [simp]: "py_bind (print w) f out = f () (out @ [w])"
  by (simp add: py_bind_def print_def)

lemma bind_if [simp]: "py_bind (if c then m else n) f = (if c then py_bind m f else py_bind n f)"
  by simp

lemmas py_ops = py_lt_def py_gt_def py_max_def py_min_def py_float_def py_div_def

subsection \<open>What one call computes\<close>

text \<open>
  The scalar branch on a float and on an int: the value returned (or the exception of the
  division), with the output after the call.
\<close>

lemma Age_float:
  fixes splrep :: "real list \<Rightarrow> real list \<Rightarrow> nat \<Rightarrow> real \<Rightarrow> 'tck"
  defines "tck \<equiv> splrep histo_alpha histo_value 3 0.08"
  shows "Age splrep splint (Some (PFloat a)) out =
     (if splint (- 0.3) (- 1.6) tck = 0 then Inl ZeroDivisionError
      else Inr (PFloat (splint alpha_max (if a < - 2 then - 2 else if 4.8 < a then 4.8 else a) tck * 2
                  / splint (- 0.3) (- 1.6) tck)),
      out @ (if a < - 2 then [TooSmall (PFloat a)] else if 4.8 < a then [TooLarge (PFloat a)] else []))"
  unfolding tck_def by (simp add: Age_def py_ops Let_def) (simp add: ret_def raise_def)

lemma Age_int:
  fixes splrep :: "real list \<Rightarrow> real list \<Rightarrow> nat \<Rightarrow> real \<Rightarrow> 'tck"
  defines "tck \<equiv> splrep histo_alpha histo_value 3 0.08"
  shows "Age splrep splint (Some (PInt n)) out =
     (if splint (- 0.3) (- 1.6) tck = 0 then Inl ZeroDivisionError
      else Inr (PFloat (splint alpha_max
                  (if real_of_int n < - 2 then - 2 else if 4.8 < real_of_int n then 4.8 else real_of_int n) tck * 2
                  / splint (- 0.3) (- 1.6) tck)),
      out @ (if real_of_int n < - 2 then [TooSmall (PInt n)]
             else if 4.8 < real_of_int n then [TooLarge (PInt n)] else []))"
  unfolding tck_def by (simp add: Age_def py_ops Let_def) (simp add: ret_def raise_def)


lemma Age_not_scalar:
  "type_of v \<notin> {TInt, TFloat} \<Longrightarrow>
   Age splrep splint (Some v) =
     py_bind (py_iter v) (\<lambda>items.
     py_bind (Age_loop splint (splrep histo_alpha histo_value 3 0.08) items []) (\<lambda>r. ret (PList r)))"
  by (simp add: Age_def Let_def)


lemma bind_PList_not_float:
  "fst (py_bind m (\<lambda>r. ret (PList r)) out) \<noteq> Inr (PFloat x)"
  by (simp add: py_bind_def ret_def split: prod.splits sum.splits)

text \<open>
  The same for items of any numeric type: the scalar branch on a value whose type is exactly
  \<^verbatim>\<open>int\<close> or \<^verbatim>\<open>float\<close>, and the sequence branch on a list whose items all compare as
  numbers.
\<close>

lemma Age_scalar_num:
  fixes splrep :: "real list \<Rightarrow> real list \<Rightarrow> nat \<Rightarrow> real \<Rightarrow> 'tck"
  defines "tck \<equiv> splrep histo_alpha histo_value 3 0.08"
  assumes "type_of v \<in> {TInt, TFloat}"
  shows "Age splrep splint (Some v) out =
     (if splint (- 0.3) (- 1.6) tck = 0 then Inl ZeroDivisionError
      else Inr (PFloat (splint alpha_max
                  (if the (num_of v) < - 2 then - 2
                   else if 4.8 < the (num_of v) then 4.8 else the (num_of v)) tck * 2
                  / splint (- 0.3) (- 1.6) tck)),
      out @ (if the (num_of v) < - 2 then [TooSmall v]
             else if 4.8 < the (num_of v) then [TooLarge v] else []))"
proof (cases v)
  case (PInt n)
  then show ?thesis unfolding tck_def by (simp add: Age_int)
next
  case (PFloat a)
  then show ?thesis unfolding tck_def by (simp add: Age_float)
qed (use assms(2) in simp_all)

lemma Age_loop_nums:
  assumes "splint (- 0.3) (- 1.6) tck \<noteq> 0" and "\<forall>v \<in> set items. num_of v \<noteq> None"
  shows "Age_loop splint tck items acc out =
     (Inr (acc @ map (\<lambda>v. PFloat (splint alpha_max
              (if the (num_of v) < - 2 then - 2
               else if 4.8 < the (num_of v) then 4.8 else the (num_of v)) tck * 2
              / splint (- 0.3) (- 1.6) tck)) items),
      out @ concat (map (\<lambda>v. if the (num_of v) < - 2 then [TooSmall v]
                             else if 4.8 < the (num_of v) then [TooLarge v] else []) items))"
  using assms(2)
proof (induction items arbitrary: acc out)
  case Nil
  show ?case by (simp add: ret_def)
next
  case (Cons i rest)
  from Cons.prems obtain a where a: "num_of i = Some a"
    by auto
  from Cons.prems have r: "\<forall>v \<in> set rest. num_of v \<noteq> None"
    by simp
  show ?case
    using assms(1) a by (simp add: py_ops Cons.IH [OF r])
qed

lemma Age_list_nums:
  fixes splrep :: "real list \<Rightarrow> real list \<Rightarrow> nat \<Rightarrow> real \<Rightarrow> 'tck"
  defines "tck \<equiv> splrep histo_alpha histo_value 3 0.08"
  assumes "splint (- 0.3) (- 1.6) tck \<noteq> 0" and "\<forall>v \<in> set items. num_of v \<noteq> None"
  shows "Age splrep splint (Some (PList items)) out =
     (Inr (PList (map (\<lambda>v. PFloat (splint alpha_max
              (if the (num_of v) < - 2 then - 2
               else if 4.8 < the (num_of v) then 4.8 else the (num_of v)) tck * 2
              / splint (- 0.3) (- 1.6) tck)) items)),
      out @ concat (map (\<lambda>v. if the (num_of v) < - 2 then [TooSmall v]
                             else if 4.8 < the (num_of v) then [TooLarge v] else []) items))"
  using assms(2,3) unfolding tck_def
  by (simp add: Age_not_scalar py_bind_def Age_loop_nums ret_def)

lemma scalar_type_num: "type_of v \<in> {TInt, TFloat} \<Longrightarrow> num_of v \<noteq> None"
  by (cases v) simp_all

text \<open>
  A zero divisor makes the scalar call raise, and a float within the bounds prints nothing,
  whatever the divisor is.
\<close>

lemma Age_zero_denominator:
  "splint (- 0.3) (- 1.6) (splrep histo_alpha histo_value 3 0.08) = 0 \<Longrightarrow>
   fst (Age splrep splint (Some (PFloat a)) out) = Inl ZeroDivisionError"
  by (simp add: Age_float)

lemma Age_in_range_silent:
  "- 2 \<le> a \<Longrightarrow> a \<le> 4.8 \<Longrightarrow> snd (Age splrep splint (Some (PFloat a)) out) = out"
  by (simp add: Age_float)

subsection \<open>Every computation only appends to the output\<close>

text \<open>
  Each primitive, and so the loop and \<^verbatim>\<open>Age\<close>, returns a result and appends a list of
  warnings that do not depend on what was printed before.
\<close>

lemma frame_ret: "\<exists>r ws. \<forall>out. ret x out = (r, out @ ws)"
  by (intro exI [of _ "Inr x"] exI [of _ "[]"]) (simp add: ret_def)

lemma frame_raise: "\<exists>r ws. \<forall>out. raise e out = (r, out @ ws)"
  by (intro exI [of _ "Inl e"] exI [of _ "[]"]) (simp add: raise_def)

lemma frame_print: "\<exists>r ws. \<forall>out. print w out = (r, out @ ws)"
  by (intro exI [of _ "Inr ()"] exI [of _ "[w]"]) (simp add: print_def)

lemma frame_bind:
  assumes m: "\<exists>r ws. \<forall>out. m out = (r, out @ ws)"
    and f: "\<And>x. \<exists>r ws. \<forall>out. f x out = (r, out @ ws)"
  shows "\<exists>r ws. \<forall>out. py_bind m f out = (r, out @ ws)"
proof -
  from m obtain r ws where mr: "\<And>out. m out = (r, out @ ws)"
    by blast
  show ?thesis
  proof (cases r)
    case (Inl e)
    with mr have "\<forall>out. py_bind m f out = (Inl e, out @ ws)"
      by (simp add: py_bind_def)
    then show ?thesis by blast
  next
    case (Inr x)
    from f [of x] obtain r' ws' where fr: "\<And>out. f x out = (r', out @ ws')"
      by blast
    from Inr mr fr have "\<forall>out. py_bind m f out = (r', out @ (ws @ ws'))"
      by (simp add: py_bind_def)
    then show ?thesis by blast
  qed
qed

lemma frame_if:
  assumes "\<exists>r ws. \<forall>out. m out = (r, out @ ws)" and "\<exists>r ws. \<forall>out. n out = (r, out @ ws)"
  shows "\<exists>r ws. \<forall>out. (if c then m else n) out = (r, out @ ws)"
  using assms by (cases c) simp_all

lemma frame_lt: "\<exists>r ws. \<forall>out. py_lt a b out = (r, out @ ws)"
  unfolding py_lt_def by (auto split: option.splits intro: frame_ret frame_raise)

lemma frame_gt: "\<exists>r ws. \<forall>out. py_gt a b out = (r, out @ ws)"
  unfolding py_gt_def by (auto split: option.splits intro: frame_ret frame_raise)

lemma frame_max: "\<exists>r ws. \<forall>out. py_max a b out = (r, out @ ws)"
  unfolding py_max_def by (intro frame_bind frame_gt frame_ret)

lemma frame_min: "\<exists>r ws. \<forall>out. py_min a b out = (r, out @ ws)"
  unfolding py_min_def by (intro frame_bind frame_lt frame_ret)

lemma frame_float: "\<exists>r ws. \<forall>out. py_float a out = (r, out @ ws)"
  unfolding py_float_def by (auto split: option.splits intro: frame_ret frame_raise)

lemma frame_div: "\<exists>r ws. \<forall>out. py_div x y out = (r, out @ ws)"
  unfolding py_div_def by (intro frame_if frame_ret frame_raise)

lemma frame_iter: "\<exists>r ws. \<forall>out. py_iter v out = (r, out @ ws)"
  by (cases v) (simp_all add: frame_ret frame_raise)

lemmas frame_intros = frame_bind frame_if frame_ret frame_raise frame_print frame_lt frame_gt
  frame_max frame_min frame_float frame_div frame_iter

lemma frame_loop: "\<exists>r ws. \<forall>out. Age_loop splint tck xs acc out = (r, out @ ws)"
proof (induction xs arbitrary: acc)
  case Nil
  show ?case by (simp add: frame_ret)
next
  case (Cons i rest)
  show ?case
    unfolding Age_loop.simps by (intro frame_intros Cons.IH)
qed

lemma frame_Age: "\<exists>r ws. \<forall>out. Age splrep splint arg out = (r, out @ ws)"
  unfolding Age_def Let_def by (intro frame_intros frame_loop)

subsection \<open>The claims about \<^verbatim>\<open>Age\<close>\<close>

text \<open>
  Claim C1: for every scalar float \<open>a\<close> with \<open>-2 \<le> a \<le> 4.8\<close>, \<^verbatim>\<open>Age(a)\<close> returns exactly
  twice the integral \<^verbatim>\<open>splint(alpha_max, a, tck)\<close> divided by the integral
  \<^verbatim>\<open>splint(-0.3, -1.6, tck)\<close>, where \<open>tck\<close> is the spline
  \<^verbatim>\<open>splrep(histo_alpha, histo_value, k=3, s=0.08)\<close> and \<^verbatim>\<open>alpha_max\<close> is
  \<open>4.814672904812319\<close>; nothing is printed. The quotient exists when the divisor is not
  zero (with a zero divisor the division raises, lemma \<open>Age_zero_denominator\<close>).
\<close>

theorem Age_in_range:
  fixes splrep :: "real list \<Rightarrow> real list \<Rightarrow> nat \<Rightarrow> real \<Rightarrow> 'tck"
  defines "tck \<equiv> splrep histo_alpha histo_value 3 0.08"
  assumes "- 2 \<le> a" and "a \<le> 4.8" and "splint (- 0.3) (- 1.6) tck \<noteq> 0"
  shows "Age splrep splint (Some (PFloat a)) out =
     (Inr (PFloat (2 * splint alpha_max a tck / splint (- 0.3) (- 1.6) tck)), out)"
  using assms(2-) unfolding tck_def by (simp add: Age_float)

theorem Age_in_range_witness:
  "- 2 \<le> (0::real) \<and> (0::real) \<le> 4.8 \<and> (- 1.6) - (- 0.3) \<noteq> (0::real) \<and>
   Age (\<lambda>x y k s. (x, y)) (\<lambda>a b t. b - a) (Some (PFloat 0)) [] =
     (Inr (PFloat (2 * (0 - alpha_max) / ((- 1.6) - (- 0.3)))), [])"
  using Age_in_range [of 0 "\<lambda>a b t. b - a" "\<lambda>x y k s. (x, y)" "[]"] by simp



text \<open>
  Claim C5, as stated: for every sequence of real numbers, the list call returns, element by
  element, what the scalar call returns. It fails on an item that is a number but whose type
  is not exactly \<^verbatim>\<open>int\<close> or \<^verbatim>\<open>float\<close>: in the list \<open>[numpy.float64(1), True]\<close> the loop
  computes a value for each item, while the scalar call on either item takes the loop
  branch and raises \<^verbatim>\<open>TypeError\<close>.
\<close>

theorem Age_sequence_elementwise_counterexample:
  "fst (Age (\<lambda>x y k s. (x, y)) (\<lambda>a b t. b - a) (Some (PList [PFloatSub 1, PBool True])) []) =
     Inr (PList [PFloat ((1 - alpha_max) * 2 / ((- 1.6) - (- 0.3))),
                 PFloat ((1 - alpha_max) * 2 / ((- 1.6) - (- 0.3)))]) \<and>
   fst (Age (\<lambda>x y k s. (x, y)) (\<lambda>a b t. b - a) (Some (PFloatSub 1)) []) = Inl TypeError \<and>
   fst (Age (\<lambda>x y k s. (x, y)) (\<lambda>a b t. b - a) (Some (PBool True)) []) = Inl TypeError"
proof -
  have "Age (\<lambda>x y k s. (x, y)) (\<lambda>a b t. b - a) (Some (PList [PFloatSub 1, PBool True])) [] =
     (Inr (PList [PFloat ((1 - alpha_max) * 2 / ((- 1.6) - (- 0.3))),
                 PFloat ((1 - alpha_max) * 2 / ((- 1.6) - (- 0.3)))]), [])"
    by (simp add: Age_not_scalar py_ops) (simp add: ret_def)
  moreover have "Age (\<lambda>x y k s. (x, y)) (\<lambda>a b t. b - a) (Some (PFloatSub 1)) [] = (Inl TypeError, [])"
    by (simp add: Age_not_scalar) (simp add: raise_def)
  moreover have "Age (\<lambda>x y k s. (x, y)) (\<lambda>a b t. b - a) (Some (PBool True)) [] = (Inl TypeError, [])"
    by (simp add: Age_not_scalar) (simp add: raise_def)
  ultimately show ?thesis by simp
qed

text \<open>
  Claim C5, amended: for every list \<open>[a\<^sub>1, \<dots>, a\<^sub>n]\<close> whose items are of type exactly \<^verbatim>\<open>int\<close>
  or \<^verbatim>\<open>float\<close> (the divisor not zero), \<^verbatim>\<open>Age\<close> returns a list of the same length \<open>n\<close> whose
  \<open>i\<close>-th element is what the scalar call \<^verbatim>\<open>Age(a\<^sub>i)\<close> returns, in the same order, whatever
  was printed before either call.
\<close>

theorem Age_sequence_elementwise:
  fixes splrep :: "real list \<Rightarrow> real list \<Rightarrow> nat \<Rightarrow> real \<Rightarrow> 'tck"
  assumes "splint (- 0.3) (- 1.6) (splrep histo_alpha histo_value 3 0.08) \<noteq> 0"
    and "\<forall>v \<in> set items. type_of v \<in> {TInt, TFloat}"
  shows "\<exists>vs. fst (Age splrep splint (Some (PList items)) out) = Inr (PList vs) \<and>
              length vs = length items \<and>
              (\<forall>i < length items.
                 fst (Age splrep splint (Some (items ! i)) out') = Inr (vs ! i))"
proof -
  from assms(2) have n: "\<forall>v \<in> set items. num_of v \<noteq> None"
    by (simp add: scalar_type_num)
  from assms(2) have s: "type_of (items ! i) \<in> {TInt, TFloat}" if "i < length items" for i
    using that by simp
  from assms(1) n s show ?thesis
    by (simp add: Age_list_nums Age_scalar_num)
qed

theorem Age_sequence_elementwise_witness:
  "(- 1.6) - (- 0.3) \<noteq> (0::real) \<and>
   type_of (PInt (- 5)) \<in> {TInt, TFloat} \<and> type_of (PFloat 0) \<in> {TInt, TFloat} \<and>
   (\<exists>vs. fst (Age (\<lambda>x y k s. (x, y)) (\<lambda>a b t. b - a)
                (Some (PList [PInt (- 5), PFloat 0])) []) = Inr (PList vs) \<and>
         length vs = 2 \<and>
         fst (Age (\<lambda>x y k s. (x, y)) (\<lambda>a b t. b - a) (Some (PInt (- 5))) []) = Inr (vs ! 0) \<and>
         fst (Age (\<lambda>x y k s. (x, y)) (\<lambda>a b t. b - a) (Some (PFloat 0)) []) = Inr (vs ! 1))"
proof -
  let ?rep = "\<lambda>(x::real list) (y::real list) (k::nat) (s::real). (x, y)"
  let ?int = "\<lambda>(a::real) (b::real) (t::real list \<times> real list). b - a"
  from Age_sequence_elementwise [of ?int ?rep "[PInt (- 5), PFloat 0]" "[]" "[]"]
  obtain vs where v: "fst (Age ?rep ?int (Some (PList [PInt (- 5), PFloat 0])) []) = Inr (PList vs)"
      "length vs = 2"
      "\<forall>i<2. fst (Age ?rep ?int (Some ([PInt (- 5), PFloat 0] ! i)) []) = Inr (vs ! i)"
    by auto
  from v(3) have "fst (Age ?rep ?int (Some (PInt (- 5))) []) = Inr (vs ! 0)"
    by (simp add: All_less_Suc2 numeral_2_eq_2)
  moreover from v(3) have "fst (Age ?rep ?int (Some (PFloat 0)) []) = Inr (vs ! 1)"
    by (simp add: All_less_Suc2 numeral_2_eq_2)
  ultimately show ?thesis
    using v(1,2) by auto
qed

text \<open>
  Claim C7: called with no argument, \<^verbatim>\<open>Age()\<close> does what \<^verbatim>\<open>Age(0.0)\<close> does, and prints no
  warning.
\<close>

theorem Age_default:
  "Age splrep splint None out = Age splrep splint (Some (PFloat 0.0)) out \<and>
   snd (Age splrep splint None out) = out"
proof -
  have "Age splrep splint None = Age splrep splint (Some (PFloat 0.0))"
    by (simp add: Age_def)
  then show ?thesis
    by (simp add: Age_float)
qed

text \<open>
  Claim C8: \<^verbatim>\<open>Age\<close> is deterministic. Two calls with equal arguments, made after any two
  histories of output, return equal results (equal scalars, equal lists, or the same
  exception) and print the same warnings: a call reads nothing that an earlier call wrote.
  The parameters \<open>splrep\<close> and \<open>splint\<close> are functions, so the SciPy routines are taken to be
  deterministic themselves.
\<close>

theorem Age_deterministic:
  "fst (Age splrep splint arg out1) = fst (Age splrep splint arg out2) \<and>
   (\<exists>ws. snd (Age splrep splint arg out1) = out1 @ ws \<and>
         snd (Age splrep splint arg out2) = out2 @ ws)"
proof -
  from frame_Age [of splrep splint arg]
  obtain r ws where "\<And>out. Age splrep splint arg out = (r, out @ ws)"
    by blast
  then show ?thesis by simp
qed

text \<open>
  Claim C9: on an empty sequence, \<^verbatim>\<open>Age\<close> returns an empty list and prints no warning.
\<close>

theorem Age_empty:
  "Age splrep splint (Some (PList [])) out = (Inr (PList []), out)"
  by (simp add: Age_not_scalar) (simp add: ret_def)

text \<open>
  Claim C10: the scalar branch is taken exactly when \<^verbatim>\<open>type(alpha)\<close> is \<^verbatim>\<open>int\<close> or \<^verbatim>\<open>float\<close>.
  For every integer \<open>n\<close>, \<^verbatim>\<open>Age(n)\<close> returns what \<^verbatim>\<open>Age\<close> returns on the float of equal
  value. A value of any other type is handed to the \<^verbatim>\<open>for\<close> loop: the call is the iteration
  over its items. So a \<^verbatim>\<open>bool\<close> and an instance of a subclass of \<^verbatim>\<open>float\<close>, which cannot be
  iterated, raise \<^verbatim>\<open>TypeError\<close> there. When the divisor is not zero, a scalar float is
  returned exactly for the arguments of type \<^verbatim>\<open>int\<close> or \<^verbatim>\<open>float\<close>.
\<close>

theorem Age_dispatch:
  fixes splrep :: "real list \<Rightarrow> real list \<Rightarrow> nat \<Rightarrow> real \<Rightarrow> 'tck"
  defines "tck \<equiv> splrep histo_alpha histo_value 3 0.08"
  shows "fst (Age splrep splint (Some (PInt n)) out) =
           fst (Age splrep splint (Some (PFloat (of_int n))) out) \<and>
         (type_of v \<notin> {TInt, TFloat} \<longrightarrow>
            Age splrep splint (Some v) out =
              py_bind (py_iter v) (\<lambda>items.
              py_bind (Age_loop splint tck items []) (\<lambda>r. ret (PList r))) out) \<and>
         Age splrep splint (Some (PBool b)) out = (Inl TypeError, out) \<and>
         Age splrep splint (Some (PFloatSub x)) out = (Inl TypeError, out) \<and>
         (splint (- 0.3) (- 1.6) tck \<noteq> 0 \<longrightarrow>
            ((\<exists>r. fst (Age splrep splint (Some v) out) = Inr (PFloat r)) \<longleftrightarrow>
             type_of v \<in> {TInt, TFloat}))"
proof -
  have 1: "fst (Age splrep splint (Some (PInt n)) out) =
           fst (Age splrep splint (Some (PFloat (of_int n))) out)"
    by (simp add: Age_float Age_int)
  have 2: "type_of v \<notin> {TInt, TFloat} \<longrightarrow>
            Age splrep splint (Some v) out =
              py_bind (py_iter v) (\<lambda>items.
              py_bind (Age_loop splint tck items []) (\<lambda>r. ret (PList r))) out"
    unfolding tck_def by (simp add: Age_not_scalar)
  have 3: "Age splrep splint (Some (PBool b)) out = (Inl TypeError, out)"
    by (simp add: Age_not_scalar) (simp add: raise_def)
  have 4: "Age splrep splint (Some (PFloatSub x)) out = (Inl TypeError, out)"
    by (simp add: Age_not_scalar) (simp add: raise_def)
  have 5: "(\<exists>r. fst (Age splrep splint (Some v) out) = Inr (PFloat r)) \<longleftrightarrow>
             type_of v \<in> {TInt, TFloat}" if d: "splint (- 0.3) (- 1.6) tck \<noteq> 0"
  proof (cases v)
    case (PInt k)
    with d show ?thesis unfolding tck_def by (simp add: Age_int)
  next
    case (PFloat y)
    with d show ?thesis unfolding tck_def by (simp add: Age_float)
  next
    case (PBool c)
    then show ?thesis by (simp add: Age_not_scalar) (simp add: raise_def)
  next
    case (PFloatSub y)
    then show ?thesis by (simp add: Age_not_scalar) (simp add: raise_def)
  next
    case PNone
    then show ?thesis by (simp add: Age_not_scalar) (simp add: raise_def)
  next
    case (PList xs)
    then show ?thesis by (simp add: Age_not_scalar bind_PList_not_float)
  qed
  from 1 2 3 4 5 show ?thesis by blast
qed

theorem Age_dispatch_witness:
  "fst (Age (\<lambda>x y k s. (x, y)) (\<lambda>a b t. b - a) (Some (PInt 3)) []) =
     fst (Age (\<lambda>x y k s. (x, y)) (\<lambda>a b t. b - a) (Some (PFloat 3)) []) \<and>
   type_of (PList [PInt 3]) \<notin> {TInt, TFloat} \<and>
   Age (\<lambda>x y k s. (x, y)) (\<lambda>a b t. b - a) (Some (PList [PInt 3])) [] =
     (Inr (PList [PFloat ((3 - alpha_max) * 2 / ((- 1.6) - (- 0.3)))]), []) \<and>
   Age (\<lambda>x y k s. (x, y)) (\<lambda>a b t. b - a) (Some (PBool True)) [] = (Inl TypeError, []) \<and>
   (- 1.6) - (- 0.3) \<noteq> (0::real) \<and>
   \<not> (\<exists>r. fst (Age (\<lambda>x y k s. (x, y)) (\<lambda>a b t. b - a) (Some (PList [PInt 3])) []) =
           Inr (PFloat r))"
proof -
  let ?rep = "\<lambda>(x::real list) (y::real list) (k::nat) (s::real). (x, y)"
  let ?int = "\<lambda>(a::real) (b::real) (t::real list \<times> real list). b - a"
  note t = Age_dispatch [of ?rep ?int 3 "[]" "PList [PInt 3]" True 0]
  note t1 = t [THEN conjunct1]
    and t2 = t [THEN conjunct2, THEN conjunct1]
    and t3 = t [THEN conjunct2, THEN conjunct2, THEN conjunct1]
    and t5 = t [THEN conjunct2, THEN conjunct2, THEN conjunct2, THEN conjunct2]
  have l: "py_bind (py_iter (PList [PInt 3])) (\<lambda>items.
              py_bind (Age_loop ?int (?rep histo_alpha histo_value 3 0.08) items [])
                (\<lambda>r. ret (PList r))) [] =
           (Inr (PList [PFloat ((3 - alpha_max) * 2 / ((- 1.6) - (- 0.3)))]), [])"
    by (simp add: py_ops) (simp add: ret_def)
  have n: "type_of (PList [PInt 3]) \<notin> {TInt, TFloat}"
    by simp
  have d: "?int (- 0.3) (- 1.6) (?rep histo_alpha histo_value 3 0.08) \<noteq> 0"
    by simp
  from t2 n have "Age ?rep ?int (Some (PList [PInt 3])) [] =
      py_bind (py_iter (PList [PInt 3])) (\<lambda>items.
              py_bind (Age_loop ?int (?rep histo_alpha histo_value 3 0.08) items [])
                (\<lambda>r. ret (PList r))) []"
    by (rule mp)
  then have 2: "Age ?rep ?int (Some (PList [PInt 3])) [] =
     (Inr (PList [PFloat ((3 - alpha_max) * 2 / ((- 1.6) - (- 0.3)))]), [])"
    by (simp only: l)
  from t5 d have "(\<exists>r. fst (Age ?rep ?int (Some (PList [PInt 3])) []) = Inr (PFloat r)) \<longleftrightarrow>
      type_of (PList [PInt 3]) \<in> {TInt, TFloat}"
    by (rule mp)
  with n have 5: "\<not> (\<exists>r. fst (Age ?rep ?int (Some (PList [PInt 3])) []) = Inr (PFloat r))"
    by blast
  from t1 2 t3 5 n show ?thesis
    by simp
qed

end
